theory Spec2Isabelle
  imports Complex_Main
begin

section \<open>Social media assistant (app.py): data model\<close>

text \<open>
  The program is one Python module: a fixed table of platform rules, a function that asks
  a hosted language model for a reply, a function that shows two metrics, and the script
  body \<open>main\<close> that a UI framework runs from top to bottom once per user interaction.
  Python strings are modelled as \<open>string\<close>, Python integers as \<open>int\<close>, the float
  results of \<open>/\<close> and the float literal \<open>0.7\<close> as exact rationals.
\<close>

subsection \<open>Exceptions\<close>

text \<open>
  Only subclasses of Python's \<open>Exception\<close> are modelled. \<open>KeyError\<close> carries the missing
  key; the other constructors carry their message.
\<close>

datatype py_exception =
    KeyError string
  | ValueError string
  | ZeroDivisionError string
  | Exception string

subsection \<open>The platform table\<close>

record platform_rules =
  max_length :: int
  tone :: string

definition PLATFORM_CONFIG :: "(string \<times> platform_rules) list" where
  "PLATFORM_CONFIG =
     [(''Twitter/X'', \<lparr>max_length = 280, tone = ''concise''\<rparr>),
      (''Facebook'', \<lparr>max_length = 800, tone = ''friendly''\<rparr>),
      (''LinkedIn'', \<lparr>max_length = 1200, tone = ''professional''\<rparr>),
      (''Instagram'', \<lparr>max_length = 300, tone = ''creative''\<rparr>),
      (''General'', \<lparr>max_length = 500, tone = ''neutral''\<rparr>)]"

text \<open>\<open>list(PLATFORM_CONFIG.keys())\<close>: the keys in insertion order.\<close>

definition platform_keys :: "string list" where
  "platform_keys = map fst PLATFORM_CONFIG"

text \<open>\<open>PLATFORM_CONFIG[platform]\<close>: a dictionary subscript raises \<open>KeyError\<close> on a missing key.\<close>

definition platform_lookup :: "string \<Rightarrow> py_exception + platform_rules" where
  "platform_lookup platform =
     (case map_of PLATFORM_CONFIG platform of
        None \<Rightarrow> Inl (KeyError platform)
      | Some platform_rules \<Rightarrow> Inr platform_rules)"

subsection \<open>The outside world\<close>

text \<open>
  What the module takes from Python and from its libraries is a parameter of the model:
  \<^item> \<open>py_repr\<close> and \<open>py_strip\<close> are the built-ins \<open>repr\<close> and \<open>str.strip\<close> on strings;
  \<^item> \<open>getenv\<close> is \<open>os.getenv\<close>, the process environment as \<open>load_dotenv()\<close> left it;
  \<^item> \<open>ChatGroq\<close> is the client's constructor, which returns a model handle or raises;
  \<^item> \<open>chain_invoke\<close> is \<open>(prompt | model | StrOutputParser()).invoke\<close>: it formats the
    prompt template with the given variables, calls the service and returns the text,
    or raises.
\<close>

record groq_args =
  api_key :: "string option"
  model_name :: string
  temperature :: rat
  max_tokens :: int

record chain_input =
  input_var :: string
  tone_var :: string
  max_length_var :: int

record 'm runtime =
  py_repr :: "string \<Rightarrow> string"
  py_strip :: "string \<Rightarrow> string"
  getenv :: "string \<Rightarrow> string option"
  ChatGroq :: "groq_args \<Rightarrow> py_exception + 'm"
  chain_invoke :: "(string \<times> string) list \<Rightarrow> 'm \<Rightarrow> chain_input \<Rightarrow> py_exception + string"

text \<open>\<open>str(e)\<close>: a \<open>KeyError\<close> prints the \<open>repr\<close> of its key, the others their message.\<close>

fun exception_str :: "'m runtime \<Rightarrow> py_exception \<Rightarrow> string" where
  "exception_str rt (KeyError k) = py_repr rt k"
| "exception_str rt (ValueError m) = m"
| "exception_str rt (ZeroDivisionError m) = m"
| "exception_str rt (Exception m) = m"

section \<open>generate_ai_response\<close>

definition system_template :: string where
  "system_template =
     ''You are a professional social media manager assistant. '' @ [CHR 0x0A] @
     ''             Respond to the user'' @ [CHR 0x27] @ ''s query in {tone} tone. '' @ [CHR 0x0A] @
     ''             Keep response under {max_length} characters. '' @ [CHR 0x0A] @
     ''             Include platform-specific best practices.''"

definition prompt_messages :: "(string \<times> string) list" where
  "prompt_messages = [(''system'', system_template), (''user'', ''{input}'')]"

text \<open>The keyword arguments of the \<open>ChatGroq(...)\<close> call.\<close>

definition model_args :: "'m runtime \<Rightarrow> platform_rules \<Rightarrow> groq_args" where
  "model_args rt platform_rules =
     \<lparr>api_key = getenv rt ''GROQ_API_KEY'',
      model_name = ''llama-3.3-70b-specdec'',
      temperature = 7 / 10,
      max_tokens = min (max_length platform_rules) 1024\<rparr>"

text \<open>The dictionary passed to \<open>chain.invoke\<close>.\<close>

definition invoke_args :: "string \<Rightarrow> platform_rules \<Rightarrow> chain_input" where
  "invoke_args user_prompt platform_rules =
     \<lparr>input_var = user_prompt,
      tone_var = tone platform_rules,
      max_length_var = max_length platform_rules\<rparr>"

text \<open>The body of the \<open>try\<close> block: each statement that can raise is a \<open>case\<close>.\<close>

definition generate_try :: "'m runtime \<Rightarrow> string \<Rightarrow> string \<Rightarrow> py_exception + string" where
  "generate_try rt user_prompt platform =
     (case platform_lookup platform of
        Inl e \<Rightarrow> Inl e
      | Inr platform_rules \<Rightarrow>
          (case ChatGroq rt (model_args rt platform_rules) of
             Inl e \<Rightarrow> Inl e
           | Inr model \<Rightarrow>
               (case chain_invoke rt prompt_messages model (invoke_args user_prompt platform_rules) of
                  Inl e \<Rightarrow> Inl e
                | Inr response \<Rightarrow> Inr (py_strip rt response))))"

definition error_prefix :: string where
  "error_prefix = ''Error generating response: ''"

text \<open>\<open>try: ... except Exception as e: return f"Error generating response: {str(e)}"\<close>.\<close>

definition generate_ai_response :: "'m runtime \<Rightarrow> string \<Rightarrow> string \<Rightarrow> string" where
  "generate_ai_response rt user_prompt platform =
     (case generate_try rt user_prompt platform of
        Inr response \<Rightarrow> response
      | Inl e \<Rightarrow> error_prefix @ exception_str rt e)"

section \<open>Session state and display_analytics\<close>

record message =
  role :: string
  content :: string
  platform :: string
  time :: string

text \<open>
  \<open>st.session_state\<close>. The key \<open>rate_response\<close> is absent (\<open>None\<close>) until the script
  sets it.
\<close>

record session_state =
  messages :: "message list"
  selected_platform :: string
  ratings :: "int list"
  rate_response :: "int option option"

text \<open>The module-level initialisation of a fresh session.\<close>

definition initial_session :: session_state where
  "initial_session =
     \<lparr>messages = [], selected_platform = ''General'', ratings = [], rate_response = None\<rparr>"

text \<open>Python's \<open>a / b\<close> on integers: raises on a zero divisor.\<close>

definition py_truediv :: "int \<Rightarrow> int \<Rightarrow> py_exception + rat" where
  "py_truediv a b =
     (if b = 0 then Inl (ZeroDivisionError ''division by zero'')
      else Inr (of_int a / of_int b))"

text \<open>
  A value shown by \<open>st.sidebar.metric\<close>: a count, the average under the format
  \<open>{avg_rating:.1f}\<close> followed by a star, or a plain text.
\<close>

datatype metric_value = Count nat | Stars_1f rat | Text string

definition display_analytics :: "session_state \<Rightarrow> py_exception + (string \<times> metric_value) list" where
  "display_analytics st =
     (let total = (''Total Interactions'', Count (length (messages st))) in
      if ratings st \<noteq> [] then
        (case py_truediv (sum_list (ratings st)) (int (length (ratings st))) of
           Inl e \<Rightarrow> Inl e
         | Inr avg_rating \<Rightarrow> Inr [total, (''Average Rating'', Stars_1f avg_rating)])
      else Inr [total, (''Average Rating'', Text ''N/A'')])"

section \<open>main: one run of the script\<close>

text \<open>
  What the user did before one run and what the widgets return in it: the select box, the
  chat input (\<open>None\<close> when nothing was submitted), the selection in the radio group
  (\<open>None\<close> when nothing is selected; the script sees it through \<open>st_radio\<close>), the clear
  button, and the two clock readings \<open>datetime.now().strftime("%H:%M:%S")\<close>.
\<close>

record ui_event =
  selectbox_value :: string
  chat_input_value :: "string option"
  radio_value :: "int option"
  button_clicked :: bool
  user_time :: string
  ai_time :: string

definition rating_options :: "int list" where
  "rating_options = [1, 2, 3, 4, 5]"

text \<open>
  \<open>st.radio(label, options, index=None)\<close>: the option the user selected, which is one of
  the options of the widget, or \<open>None\<close>; a value outside the options cannot be delivered
  and counts as no selection.
\<close>

definition st_radio :: "int list \<Rightarrow> int option \<Rightarrow> int option" where
  "st_radio options selection =
     (case selection of
        None \<Rightarrow> None
      | Some v \<Rightarrow> if v \<in> set options then Some v else None)"

text \<open>\<open>xs.index(x)\<close>: the first position of \<open>x\<close>, \<open>ValueError\<close> when there is none.\<close>

fun list_index :: "'a list \<Rightarrow> 'a \<Rightarrow> nat option" where
  "list_index [] x = None"
| "list_index (y # ys) x =
     (if y = x then Some 0 else map_option Suc (list_index ys x))"

text \<open>\<open>if selected_rating: st.session_state.ratings.append(selected_rating)\<close>.\<close>

definition handle_rating :: "int option \<Rightarrow> session_state \<Rightarrow> session_state" where
  "handle_rating selected_rating st =
     (case selected_rating of
        None \<Rightarrow> st
      | Some v \<Rightarrow> if v \<noteq> 0 then st\<lparr>ratings := ratings st @ [v]\<rparr> else st)"

text \<open>The block under \<open>if prompt := st.chat_input(...)\<close>; an empty string is falsy.\<close>

definition handle_prompt :: "'m runtime \<Rightarrow> ui_event \<Rightarrow> session_state \<Rightarrow> session_state" where
  "handle_prompt rt ev st =
     (case chat_input_value ev of
        None \<Rightarrow> st
      | Some prompt \<Rightarrow>
          if prompt = [] then st
          else
            (let user_msg = \<lparr>role = ''user'', content = prompt,
                             platform = selected_platform st, time = user_time ev\<rparr>;
                 st1 = st\<lparr>messages := messages st @ [user_msg]\<rparr>;
                 ai_response = generate_ai_response rt prompt (selected_platform st1);
                 ai_msg = \<lparr>role = ''assistant'', content = ai_response,
                           platform = selected_platform st1, time = ai_time ev\<rparr>;
                 st2 = st1\<lparr>messages := messages st1 @ [ai_msg]\<rparr>;
                 st3 = (if rate_response st2 = None then st2\<lparr>rate_response := Some None\<rparr> else st2);
                 selected_rating = st_radio rating_options (radio_value ev)
             in handle_rating selected_rating st3))"

text \<open>
  The block under \<open>if st.session_state.messages\<close>: the two assignments, then
  \<open>st.rerun()\<close>, which ends the run and is the last statement of the script.
\<close>

definition clear_conversation :: "session_state \<Rightarrow> session_state" where
  "clear_conversation st = st\<lparr>messages := [], ratings := []\<rparr>"

definition handle_clear :: "ui_event \<Rightarrow> session_state \<Rightarrow> session_state" where
  "handle_clear ev st =
     (if messages st \<noteq> [] then
        (if button_clicked ev then clear_conversation st else st)
      else st)"

definition main :: "'m runtime \<Rightarrow> ui_event \<Rightarrow> session_state \<Rightarrow> py_exception + session_state" where
  "main rt ev st =
     (case list_index platform_keys (selected_platform st) of
        None \<Rightarrow> Inl (ValueError (py_repr rt (selected_platform st) @ '' is not in list''))
      | Some i \<Rightarrow>
          (let st1 = st\<lparr>selected_platform := selectbox_value ev\<rparr> in
           case display_analytics st1 of
             Inl e \<Rightarrow> Inl e
           | Inr metrics \<Rightarrow> Inr (handle_clear ev (handle_prompt rt ev st1))))"

text \<open>A session: the script is run once per interaction, each run on the state the last one left.\<close>

fun run_session :: "('m runtime \<times> ui_event) list \<Rightarrow> session_state \<Rightarrow> py_exception + session_state" where
  "run_session [] st = Inr st"
| "run_session ((rt, ev) # rest) st =
     (case main rt ev st of
        Inl e \<Rightarrow> Inl e
      | Inr st' \<Rightarrow> run_session rest st')"

section \<open>Predicates and sample inputs\<close>

text \<open>
  A message list alternates when it is a sequence of pairs, a \<open>user\<close> message followed by
  an \<open>assistant\<close> message; such a list has even length.
\<close>

fun alternates :: "message list \<Rightarrow> bool" where
  "alternates [] = True"
| "alternates [m] = False"
| "alternates (u # a # rest) = (role u = ''user'' \<and> role a = ''assistant'' \<and> alternates rest)"

text \<open>
  Two concrete runtimes on which the model can be evaluated: in the first the API key is
  not set and the client refuses to be built; in the second the key is set, the service
  answers, and fails on the prompt \<open>quota\<close>.
\<close>

definition sample_runtime :: "unit runtime" where
  "sample_runtime =
     \<lparr>py_repr = (\<lambda>s. [CHR 0x27] @ s @ [CHR 0x27]),
      py_strip = (\<lambda>s. rev (dropWhile (\<lambda>c. c = CHR '' '') (rev (dropWhile (\<lambda>c. c = CHR '' '') s)))),
      getenv = (\<lambda>k. None),
      ChatGroq = (\<lambda>args. case api_key args of
                          None \<Rightarrow> Inl (Exception ''api_key must be set'')
                        | Some k \<Rightarrow> Inr ()),
      chain_invoke = (\<lambda>msgs model i.
                        if input_var i = ''quota'' then Inl (Exception ''rate limit'')
                        else Inr '' Launch day! '')\<rparr>"

definition keyed_runtime :: "unit runtime" where
  "keyed_runtime =
     sample_runtime\<lparr>getenv := (\<lambda>k. if k = ''GROQ_API_KEY'' then Some ''gsk'' else None)\<rparr>"

definition sample_event :: ui_event where
  "sample_event =
     \<lparr>selectbox_value = ''Twitter/X'', chat_input_value = Some ''Announce our new product launch'',
      radio_value = Some 3, button_clicked = False,
      user_time = ''10:00:00'', ai_time = ''10:00:01''\<rparr>"

text \<open>The session invariant: ratings exist only where messages do.\<close>

definition ratings_need_messages :: "session_state \<Rightarrow> bool" where
  "ratings_need_messages st = (messages st = [] \<longrightarrow> ratings st = [])"

text \<open>Two more events: a click on the clear button, and a run with no interaction.\<close>

definition clear_event :: ui_event where
  "clear_event =
     \<lparr>selectbox_value = ''Twitter/X'', chat_input_value = None,
      radio_value = None, button_clicked = True,
      user_time = ''10:05:00'', ai_time = ''10:05:00''\<rparr>"

definition idle_event :: ui_event where
  "idle_event = clear_event\<lparr>button_clicked := False\<rparr>"

text \<open>
  A submission with no rating selected, and the run that a click on the rating 3 starts:
  the chat input returns \<open>None\<close> in it.
\<close>

definition unrated_event :: ui_event where
  "unrated_event = sample_event\<lparr>radio_value := None\<rparr>"

definition rating_click_event :: ui_event where
  "rating_click_event = idle_event\<lparr>radio_value := Some 3\<rparr>"

section \<open>Facts about the platform table and the generator\<close>

lemma map_of_PLATFORM_CONFIG:
  "map_of PLATFORM_CONFIG p =
     (if p = ''Twitter/X'' then Some \<lparr>max_length = 280, tone = ''concise''\<rparr>
      else if p = ''Facebook'' then Some \<lparr>max_length = 800, tone = ''friendly''\<rparr>
      else if p = ''LinkedIn'' then Some \<lparr>max_length = 1200, tone = ''professional''\<rparr>
      else if p = ''Instagram'' then Some \<lparr>max_length = 300, tone = ''creative''\<rparr>
      else if p = ''General'' then Some \<lparr>max_length = 500, tone = ''neutral''\<rparr>
      else None)"
  by (simp add: PLATFORM_CONFIG_def)

lemma platform_keys_eq:
  "platform_keys = [''Twitter/X'', ''Facebook'', ''LinkedIn'', ''Instagram'', ''General'']"
  by (simp add: platform_keys_def PLATFORM_CONFIG_def)

lemma platform_lookup_unknown:
  "p \<notin> set platform_keys \<Longrightarrow> platform_lookup p = Inl (KeyError p)"
  by (simp add: platform_lookup_def map_of_PLATFORM_CONFIG platform_keys_eq)

lemma platform_lookup_known:
  "p \<in> set platform_keys \<Longrightarrow> \<exists>rules. platform_lookup p = Inr rules"
  by (auto simp add: platform_lookup_def map_of_PLATFORM_CONFIG platform_keys_eq)

lemma generate_lookup_fails:
  "platform_lookup p = Inl e \<Longrightarrow>
   generate_ai_response rt u p = error_prefix @ exception_str rt e"
  by (simp add: generate_ai_response_def generate_try_def)

lemma generate_client_fails:
  "platform_lookup p = Inr rules \<Longrightarrow> ChatGroq rt (model_args rt rules) = Inl e \<Longrightarrow>
   generate_ai_response rt u p = error_prefix @ exception_str rt e"
  by (simp add: generate_ai_response_def generate_try_def)

lemma generate_invoke_fails:
  "platform_lookup p = Inr rules \<Longrightarrow> ChatGroq rt (model_args rt rules) = Inr model \<Longrightarrow>
   chain_invoke rt prompt_messages model (invoke_args u rules) = Inl e \<Longrightarrow>
   generate_ai_response rt u p = error_prefix @ exception_str rt e"
  by (simp add: generate_ai_response_def generate_try_def)

lemma generate_succeeds:
  "platform_lookup p = Inr rules \<Longrightarrow> ChatGroq rt (model_args rt rules) = Inr model \<Longrightarrow>
   chain_invoke rt prompt_messages model (invoke_args u rules) = Inr response \<Longrightarrow>
   generate_ai_response rt u p = py_strip rt response"
  by (simp add: generate_ai_response_def generate_try_def)

lemma sample_lookup_General:
  "platform_lookup ''General'' = Inr \<lparr>max_length = 500, tone = ''neutral''\<rparr>"
  by (simp add: platform_lookup_def map_of_PLATFORM_CONFIG)

lemma display_analytics_eq:
  "display_analytics st =
     Inr [(''Total Interactions'', Count (length (messages st))),
          (''Average Rating'',
           if ratings st = [] then Text ''N/A''
           else Stars_1f (of_int (sum_list (ratings st)) / of_int (int (length (ratings st)))))]"
  by (simp add: display_analytics_def py_truediv_def Let_def)

section \<open>Facts about one run and about sessions\<close>

lemma list_index_None_iff: "list_index xs x = None \<longleftrightarrow> x \<notin> set xs"
  by (induction xs) auto

lemma handle_rating_messages: "messages (handle_rating r st) = messages st"
  by (simp add: handle_rating_def split: option.splits)

lemma handle_prompt_idle:
  "chat_input_value ev = None \<or> chat_input_value ev = Some [] \<Longrightarrow> handle_prompt rt ev st = st"
  by (auto simp add: handle_prompt_def)

lemma handle_prompt_messages:
  "chat_input_value ev = Some prompt \<Longrightarrow> prompt \<noteq> [] \<Longrightarrow>
   messages (handle_prompt rt ev st) =
     messages st @
       [\<lparr>role = ''user'', content = prompt, platform = selected_platform st, time = user_time ev\<rparr>,
        \<lparr>role = ''assistant'',
         content = generate_ai_response rt prompt (selected_platform st),
         platform = selected_platform st, time = ai_time ev\<rparr>]"
  by (simp add: handle_prompt_def Let_def handle_rating_messages)

lemma handle_prompt_ratings:
  "ratings (handle_prompt rt ev st) = ratings st \<or>
   (\<exists>v. ratings (handle_prompt rt ev st) = ratings st @ [v] \<and>
        length (messages (handle_prompt rt ev st)) = length (messages st) + 2)"
  by (auto simp add: handle_prompt_def Let_def handle_rating_def split: option.splits)

lemma main_eq:
  "selected_platform st \<in> set platform_keys \<Longrightarrow>
   main rt ev st =
     Inr (handle_clear ev (handle_prompt rt ev (st\<lparr>selected_platform := selectbox_value ev\<rparr>)))"
proof -
  assume "selected_platform st \<in> set platform_keys"
  then obtain i where "list_index platform_keys (selected_platform st) = Some i"
    using list_index_None_iff [of platform_keys "selected_platform st"] by auto
  then show ?thesis
    by (simp add: main_def Let_def display_analytics_eq)
qed

lemma main_InrD:
  "main rt ev st = Inr st' \<Longrightarrow>
   selected_platform st \<in> set platform_keys \<and>
   st' = handle_clear ev (handle_prompt rt ev (st\<lparr>selected_platform := selectbox_value ev\<rparr>))"
proof -
  assume m: "main rt ev st = Inr st'"
  have k: "selected_platform st \<in> set platform_keys"
  proof (rule ccontr)
    assume "selected_platform st \<notin> set platform_keys"
    then have "list_index platform_keys (selected_platform st) = None"
      by (simp add: list_index_None_iff)
    with m show False by (simp add: main_def)
  qed
  with m main_eq [OF k, of rt ev] show ?thesis by simp
qed

lemma handle_prompt_keeps_invariant:
  "ratings_need_messages st \<Longrightarrow> ratings_need_messages (handle_prompt rt ev st)"
  by (auto simp add: ratings_need_messages_def handle_prompt_def Let_def handle_rating_def
      split: option.splits)

lemma handle_clear_keeps_invariant:
  "ratings_need_messages st \<Longrightarrow> ratings_need_messages (handle_clear ev st)"
  by (simp add: ratings_need_messages_def handle_clear_def clear_conversation_def)

lemma main_keeps_invariant:
  "main rt ev st = Inr st' \<Longrightarrow> ratings_need_messages st \<Longrightarrow> ratings_need_messages st'"
proof -
  assume m: "main rt ev st = Inr st'" and i: "ratings_need_messages st"
  from i have "ratings_need_messages (st\<lparr>selected_platform := selectbox_value ev\<rparr>)"
    by (simp add: ratings_need_messages_def)
  then show ?thesis
    using main_InrD [OF m] handle_prompt_keeps_invariant handle_clear_keeps_invariant by blast
qed

lemma run_session_keeps_invariant:
  "run_session steps st = Inr st' \<Longrightarrow> ratings_need_messages st \<Longrightarrow> ratings_need_messages st'"
proof (induction steps arbitrary: st)
  case Nil
  then show ?case by simp
next
  case (Cons step steps)
  obtain rt ev where s: "step = (rt, ev)" by (cases step)
  with Cons.prems(1) obtain mid where
    m: "main rt ev st = Inr mid" and r: "run_session steps mid = Inr st'"
    by (auto split: sum.splits)
  from main_keeps_invariant [OF m Cons.prems(2)] Cons.IH [OF r] show ?case by blast
qed

lemma initial_invariant: "ratings_need_messages initial_session"
  by (simp add: ratings_need_messages_def initial_session_def)

lemma alternates_append_pair:
  "alternates ms \<Longrightarrow> role u = ''user'' \<Longrightarrow> role a = ''assistant'' \<Longrightarrow> alternates (ms @ [u, a])"
  by (induction ms rule: alternates.induct) simp_all

lemma alternates_even: "alternates ms \<Longrightarrow> even (length ms)"
  by (induction ms rule: alternates.induct) simp_all

lemma handle_prompt_alternates:
  "alternates (messages st) \<Longrightarrow> alternates (messages (handle_prompt rt ev st))"
proof (cases "chat_input_value ev")
  case None
  assume "alternates (messages st)"
  then show ?thesis using None by (simp add: handle_prompt_idle)
next
  case (Some prompt)
  assume a: "alternates (messages st)"
  show ?thesis
  proof (cases "prompt = []")
    case True
    then show ?thesis using a Some by (simp add: handle_prompt_idle)
  next
    case False
    then show ?thesis
      using a handle_prompt_messages [OF Some False, of rt st]
      by (simp add: alternates_append_pair)
  qed
qed

lemma handle_clear_alternates:
  "alternates (messages st) \<Longrightarrow> alternates (messages (handle_clear ev st))"
  by (simp add: handle_clear_def clear_conversation_def)

lemma main_alternates:
  "main rt ev st = Inr st' \<Longrightarrow> alternates (messages st) \<Longrightarrow> alternates (messages st')"
proof -
  assume m: "main rt ev st = Inr st'" and a: "alternates (messages st)"
  from a have "alternates (messages (st\<lparr>selected_platform := selectbox_value ev\<rparr>))" by simp
  then show ?thesis
    using main_InrD [OF m] handle_prompt_alternates handle_clear_alternates by blast
qed

lemma run_session_alternates:
  "run_session steps st = Inr st' \<Longrightarrow> alternates (messages st) \<Longrightarrow> alternates (messages st')"
proof (induction steps arbitrary: st)
  case Nil
  then show ?case by simp
next
  case (Cons step steps)
  obtain rt ev where s: "step = (rt, ev)" by (cases step)
  with Cons.prems(1) obtain mid where
    m: "main rt ev st = Inr mid" and r: "run_session steps mid = Inr st'"
    by (auto split: sum.splits)
  from main_alternates [OF m Cons.prems(2)] Cons.IH [OF r] show ?case by blast
qed

lemma sample_generate:
  "generate_ai_response keyed_runtime ''Announce our new product launch'' ''Twitter/X'' = ''Launch day!''"
  by (simp add: generate_ai_response_def generate_try_def platform_lookup_def
      map_of_PLATFORM_CONFIG model_args_def invoke_args_def keyed_runtime_def sample_runtime_def)

lemma sample_generate_no_key:
  "generate_ai_response sample_runtime ''Announce our new product launch'' ''Twitter/X'' =
     ''Error generating response: api_key must be set''"
  by (simp add: generate_ai_response_def generate_try_def platform_lookup_def error_prefix_def
      map_of_PLATFORM_CONFIG model_args_def invoke_args_def sample_runtime_def)

lemma sample_main:
  "main keyed_runtime sample_event initial_session =
     Inr \<lparr>messages =
            [\<lparr>role = ''user'', content = ''Announce our new product launch'',
              platform = ''Twitter/X'', time = ''10:00:00''\<rparr>,
             \<lparr>role = ''assistant'', content = ''Launch day!'',
              platform = ''Twitter/X'', time = ''10:00:01''\<rparr>],
          selected_platform = ''Twitter/X'', ratings = [3], rate_response = Some None\<rparr>"
proof -
  have k: "selected_platform initial_session \<in> set platform_keys"
    by (simp add: initial_session_def platform_keys_eq)
  show ?thesis
    unfolding main_eq [OF k]
    by (simp add: handle_clear_def handle_prompt_def handle_rating_def st_radio_def
        rating_options_def Let_def sample_generate sample_event_def initial_session_def)
qed

section \<open>The claims\<close>

text \<open>
  Claim C2. Looking a name up in the platform table returns, for each of the five fixed
  names, the documented rules (280 concise, 800 friendly, 1200 professional, 300 creative,
  500 neutral); for every other string the lookup fails, with the \<open>KeyError\<close> of the
  name (the program's form of an unknown platform).
\<close>

theorem platform_lookup_table:
  "platform_lookup ''Twitter/X'' = Inr \<lparr>max_length = 280, tone = ''concise''\<rparr> \<and>
   platform_lookup ''Facebook'' = Inr \<lparr>max_length = 800, tone = ''friendly''\<rparr> \<and>
   platform_lookup ''LinkedIn'' = Inr \<lparr>max_length = 1200, tone = ''professional''\<rparr> \<and>
   platform_lookup ''Instagram'' = Inr \<lparr>max_length = 300, tone = ''creative''\<rparr> \<and>
   platform_lookup ''General'' = Inr \<lparr>max_length = 500, tone = ''neutral''\<rparr> \<and>
   (\<forall>p. p \<notin> {''Twitter/X'', ''Facebook'', ''LinkedIn'', ''Instagram'', ''General''}
        \<longrightarrow> platform_lookup p = Inl (KeyError p))"
  by (simp add: platform_lookup_def map_of_PLATFORM_CONFIG)

theorem platform_lookup_table_witness:
  "''TikTok'' \<notin> {''Twitter/X'', ''Facebook'', ''LinkedIn'', ''Instagram'', ''General''} \<and>
   platform_lookup ''TikTok'' = Inl (KeyError ''TikTok'')"
  using platform_lookup_table by simp

text \<open>
  Claim C1. For every prompt and every platform name \<open>generate_ai_response\<close> returns a
  string: when the table lookup, the construction of the client or the call of the chain
  raises, the string is \<open>Error generating response: \<close> followed by the text of the
  exception; when all three succeed, it is the generated text, trimmed by \<open>strip\<close>.
  One of the two always happens.
\<close>

theorem generate_ai_response_fail_soft:
  "(\<forall>e. platform_lookup pname = Inl e \<longrightarrow>
        generate_ai_response rt user_prompt pname = error_prefix @ exception_str rt e) \<and>
   (\<forall>rules e. platform_lookup pname = Inr rules \<and>
        ChatGroq rt (model_args rt rules) = Inl e \<longrightarrow>
        generate_ai_response rt user_prompt pname = error_prefix @ exception_str rt e) \<and>
   (\<forall>rules model e. platform_lookup pname = Inr rules \<and>
        ChatGroq rt (model_args rt rules) = Inr model \<and>
        chain_invoke rt prompt_messages model (invoke_args user_prompt rules) = Inl e \<longrightarrow>
        generate_ai_response rt user_prompt pname = error_prefix @ exception_str rt e) \<and>
   (\<forall>rules model response. platform_lookup pname = Inr rules \<and>
        ChatGroq rt (model_args rt rules) = Inr model \<and>
        chain_invoke rt prompt_messages model (invoke_args user_prompt rules) = Inr response \<longrightarrow>
        generate_ai_response rt user_prompt pname = py_strip rt response) \<and>
   ((\<exists>e. generate_try rt user_prompt pname = Inl e \<and>
         generate_ai_response rt user_prompt pname = error_prefix @ exception_str rt e) \<or>
    (\<exists>response. generate_try rt user_prompt pname = Inr (py_strip rt response) \<and>
         generate_ai_response rt user_prompt pname = py_strip rt response))"
proof (intro conjI allI impI)
  show "(\<exists>e. generate_try rt user_prompt pname = Inl e \<and>
         generate_ai_response rt user_prompt pname = error_prefix @ exception_str rt e) \<or>
    (\<exists>response. generate_try rt user_prompt pname = Inr (py_strip rt response) \<and>
         generate_ai_response rt user_prompt pname = py_strip rt response)"
    by (auto simp add: generate_ai_response_def generate_try_def split: sum.splits)
qed (auto simp add: generate_lookup_fails generate_client_fails generate_invoke_fails
       generate_succeeds)

theorem generate_ai_response_fail_soft_witness:
  "generate_ai_response keyed_runtime ''hi'' ''TikTok'' =
     ''Error generating response: '' @ [CHR 0x27] @ ''TikTok'' @ [CHR 0x27] \<and>
   generate_ai_response sample_runtime ''hi'' ''General'' =
     ''Error generating response: api_key must be set'' \<and>
   generate_ai_response keyed_runtime ''quota'' ''General'' =
     ''Error generating response: rate limit'' \<and>
   generate_ai_response keyed_runtime ''hi'' ''General'' = ''Launch day!''"
proof (intro conjI)
  have a: "platform_lookup ''TikTok'' = Inl (KeyError ''TikTok'')"
    by (simp add: platform_lookup_def map_of_PLATFORM_CONFIG)
  show "generate_ai_response keyed_runtime ''hi'' ''TikTok'' =
     ''Error generating response: '' @ [CHR 0x27] @ ''TikTok'' @ [CHR 0x27]"
    using generate_ai_response_fail_soft [where rt = keyed_runtime and pname = "''TikTok''"
        and user_prompt = "''hi''"] a
    by (simp add: error_prefix_def keyed_runtime_def sample_runtime_def)
  have b: "ChatGroq sample_runtime (model_args sample_runtime \<lparr>max_length = 500, tone = ''neutral''\<rparr>)
             = Inl (Exception ''api_key must be set'')"
    by (simp add: sample_runtime_def model_args_def)
  show "generate_ai_response sample_runtime ''hi'' ''General'' =
     ''Error generating response: api_key must be set''"
    using generate_ai_response_fail_soft [where rt = sample_runtime and pname = "''General''"
        and user_prompt = "''hi''"] sample_lookup_General b
    by (simp add: error_prefix_def)
  have c: "ChatGroq keyed_runtime (model_args keyed_runtime \<lparr>max_length = 500, tone = ''neutral''\<rparr>)
             = Inr ()"
    by (simp add: keyed_runtime_def sample_runtime_def model_args_def)
  have d: "chain_invoke keyed_runtime prompt_messages ()
             (invoke_args ''quota'' \<lparr>max_length = 500, tone = ''neutral''\<rparr>) = Inl (Exception ''rate limit'')"
    by (simp add: keyed_runtime_def sample_runtime_def invoke_args_def)
  show "generate_ai_response keyed_runtime ''quota'' ''General'' =
     ''Error generating response: rate limit''"
    using generate_ai_response_fail_soft [where rt = keyed_runtime and pname = "''General''"
        and user_prompt = "''quota''"] sample_lookup_General c d
    by (simp add: error_prefix_def)
  have e: "chain_invoke keyed_runtime prompt_messages ()
             (invoke_args ''hi'' \<lparr>max_length = 500, tone = ''neutral''\<rparr>) = Inr '' Launch day! ''"
    by (simp add: keyed_runtime_def sample_runtime_def invoke_args_def)
  have f: "py_strip keyed_runtime '' Launch day! '' = ''Launch day!''"
    by (simp add: keyed_runtime_def sample_runtime_def)
  show "generate_ai_response keyed_runtime ''hi'' ''General'' = ''Launch day!''"
    using generate_ai_response_fail_soft [where rt = keyed_runtime and pname = "''General''"
        and user_prompt = "''hi''"] sample_lookup_General c e f
    by simp
qed

text \<open>
  Claim C4. For every platform of the table, the client is built with
  \<open>max_tokens = min(max_length, 1024)\<close> and \<open>temperature = 0.7\<close>, and the chain is
  invoked on that client with the prompt, the tone and the maximal length of the platform:
  280 tokens for Twitter/X, 800 for Facebook, 1024 for LinkedIn (whose maximal length is
  1200), 300 for Instagram and 500 for General.
\<close>

theorem outbound_call_configuration:
  "(\<forall>pname rules. platform_lookup pname = Inr rules \<longrightarrow>
      max_tokens (model_args rt rules) = min (max_length rules) 1024 \<and>
      temperature (model_args rt rules) = 7 / 10 \<and>
      generate_try rt user_prompt pname =
        (case ChatGroq rt \<lparr>api_key = getenv rt ''GROQ_API_KEY'',
                             model_name = ''llama-3.3-70b-specdec'',
                             temperature = 7 / 10,
                             max_tokens = min (max_length rules) 1024\<rparr> of
           Inl e \<Rightarrow> Inl e
         | Inr model \<Rightarrow>
             (case chain_invoke rt prompt_messages model
                     \<lparr>input_var = user_prompt, tone_var = tone rules,
                      max_length_var = max_length rules\<rparr> of
                Inl e \<Rightarrow> Inl e
              | Inr response \<Rightarrow> Inr (py_strip rt response)))) \<and>
   map (\<lambda>(pname, rules). (pname, max_tokens (model_args rt rules), temperature (model_args rt rules)))
       PLATFORM_CONFIG =
     [(''Twitter/X'', 280, 7 / 10), (''Facebook'', 800, 7 / 10), (''LinkedIn'', 1024, 7 / 10),
      (''Instagram'', 300, 7 / 10), (''General'', 500, 7 / 10)]"
  by (simp add: generate_try_def model_args_def invoke_args_def PLATFORM_CONFIG_def
        cong: sum.case_cong)

theorem outbound_call_configuration_witness:
  "platform_lookup ''LinkedIn'' = Inr \<lparr>max_length = 1200, tone = ''professional''\<rparr> \<and>
   max_tokens (model_args keyed_runtime \<lparr>max_length = 1200, tone = ''professional''\<rparr>) = 1024 \<and>
   temperature (model_args keyed_runtime \<lparr>max_length = 1200, tone = ''professional''\<rparr>) = 7 / 10 \<and>
   generate_try keyed_runtime ''hi'' ''LinkedIn'' = Inr ''Launch day!''"
proof -
  have a: "platform_lookup ''LinkedIn'' = Inr \<lparr>max_length = 1200, tone = ''professional''\<rparr>"
    by (simp add: platform_lookup_def map_of_PLATFORM_CONFIG)
  show ?thesis
    using outbound_call_configuration [where rt = keyed_runtime and user_prompt = "''hi''"] a
    by (simp add: keyed_runtime_def sample_runtime_def)
qed

text \<open>
  Claim C5. \<open>display_analytics\<close> never raises. With at least one rating the average
  metric is the sum of the ratings divided by their number (4 for the ratings 4, 5, 3);
  with no rating it is the text \<open>N/A\<close>, and no division takes place.
\<close>

theorem average_rating_metric:
  "display_analytics st =
     Inr [(''Total Interactions'', Count (length (messages st))),
          (''Average Rating'',
           if ratings st = [] then Text ''N/A''
           else Stars_1f (of_int (sum_list (ratings st)) / of_int (int (length (ratings st)))))] \<and>
   (\<forall>e. display_analytics st \<noteq> Inl e) \<and>
   (ratings st = [4, 5, 3] \<longrightarrow>
      display_analytics st =
        Inr [(''Total Interactions'', Count (length (messages st))),
             (''Average Rating'', Stars_1f 4)]) \<and>
   (ratings st = [] \<longrightarrow>
      display_analytics st =
        Inr [(''Total Interactions'', Count (length (messages st))),
             (''Average Rating'', Text ''N/A'')])"
  by (simp add: display_analytics_eq)

theorem average_rating_metric_witness:
  "display_analytics (initial_session\<lparr>ratings := [4, 5, 3]\<rparr>) =
     Inr [(''Total Interactions'', Count 0), (''Average Rating'', Stars_1f 4)] \<and>
   display_analytics initial_session =
     Inr [(''Total Interactions'', Count 0), (''Average Rating'', Text ''N/A'')]"
  using average_rating_metric [of "initial_session\<lparr>ratings := [4, 5, 3]\<rparr>"]
        average_rating_metric [of initial_session]
  by (simp add: initial_session_def)

text \<open>
  Claim C9. For a platform name outside the table, the lookup's \<open>KeyError\<close> is caught by
  the same handler as every other exception: the result is the string
  \<open>Error generating response: \<close> followed by the \<open>repr\<close> of the name, and it is the very
  string returned for a platform of the table when the client fails with that exception.
\<close>

theorem unknown_platform_absorbed:
  "pname \<notin> set platform_keys \<Longrightarrow>
     generate_try rt user_prompt pname = Inl (KeyError pname) \<and>
     generate_ai_response rt user_prompt pname = error_prefix @ py_repr rt pname \<and>
     (\<forall>known \<in> set platform_keys.
        generate_ai_response (rt\<lparr>ChatGroq := \<lambda>args. Inl (KeyError pname)\<rparr>) user_prompt known =
        generate_ai_response rt user_prompt pname)"
proof (intro conjI ballI)
  assume u: "pname \<notin> set platform_keys"
  show "generate_try rt user_prompt pname = Inl (KeyError pname)"
    using u by (simp add: generate_try_def platform_lookup_unknown)
  show g: "generate_ai_response rt user_prompt pname = error_prefix @ py_repr rt pname"
    using u by (simp add: generate_lookup_fails platform_lookup_unknown)
  fix known assume "known \<in> set platform_keys"
  then obtain rules where "platform_lookup known = Inr rules"
    using platform_lookup_known by blast
  then have "generate_ai_response (rt\<lparr>ChatGroq := \<lambda>args. Inl (KeyError pname)\<rparr>) user_prompt known =
        error_prefix @ exception_str (rt\<lparr>ChatGroq := \<lambda>args. Inl (KeyError pname)\<rparr>) (KeyError pname)"
    by (intro generate_client_fails) simp_all
  then show "generate_ai_response (rt\<lparr>ChatGroq := \<lambda>args. Inl (KeyError pname)\<rparr>) user_prompt known =
        generate_ai_response rt user_prompt pname"
    using g by simp
qed

theorem unknown_platform_absorbed_witness:
  "''TikTok'' \<notin> set platform_keys \<and>
   generate_ai_response keyed_runtime ''hi'' ''TikTok'' =
     ''Error generating response: '' @ [CHR 0x27] @ ''TikTok'' @ [CHR 0x27] \<and>
   generate_ai_response (keyed_runtime\<lparr>ChatGroq := \<lambda>args. Inl (KeyError ''TikTok'')\<rparr>) ''hi'' ''General'' =
     generate_ai_response keyed_runtime ''hi'' ''TikTok''"
proof -
  have a: "''TikTok'' \<notin> set platform_keys" by (simp add: platform_keys_eq)
  have b: "''General'' \<in> set platform_keys" by (simp add: platform_keys_eq)
  show ?thesis
    using unknown_platform_absorbed [OF a, of keyed_runtime "''hi''"] a b
    by (simp add: error_prefix_def keyed_runtime_def sample_runtime_def)
qed

text \<open>
  Claim C3 asks that a rating between 1 and 5 be appended to the ratings and be visible
  afterwards. The rating block of \<open>main\<close> sits under the test of the prompt, and a click
  on the radio group starts a run in which the chat input returns \<open>None\<close>. So after one
  exchange, the selection of the rating 3, a value that the radio group delivers, leaves
  the ratings empty: the rating is dropped.
\<close>

theorem rating_click_is_dropped:
  "st_radio rating_options (radio_value rating_click_event) = Some 3 \<and>
   chat_input_value rating_click_event = None \<and>
   run_session [(keyed_runtime, unrated_event), (keyed_runtime, rating_click_event)]
       initial_session =
     Inr \<lparr>messages =
            [\<lparr>role = ''user'', content = ''Announce our new product launch'',
              platform = ''Twitter/X'', time = ''10:00:00''\<rparr>,
             \<lparr>role = ''assistant'', content = ''Launch day!'',
              platform = ''Twitter/X'', time = ''10:00:01''\<rparr>],
          selected_platform = ''Twitter/X'', ratings = [], rate_response = Some None\<rparr>"
proof -
  define mid where "mid =
     \<lparr>messages =
            [\<lparr>role = ''user'', content = ''Announce our new product launch'',
              platform = ''Twitter/X'', time = ''10:00:00''\<rparr>,
             \<lparr>role = ''assistant'', content = ''Launch day!'',
              platform = ''Twitter/X'', time = ''10:00:01''\<rparr>],
          selected_platform = ''Twitter/X'', ratings = ([] :: int list),
          rate_response = Some (None :: int option)\<rparr>"
  have k0: "selected_platform initial_session \<in> set platform_keys"
    by (simp add: initial_session_def platform_keys_eq)
  have one: "main keyed_runtime unrated_event initial_session = Inr mid"
    unfolding main_eq [OF k0]
    by (simp add: handle_clear_def handle_prompt_def handle_rating_def st_radio_def
        Let_def sample_generate unrated_event_def sample_event_def initial_session_def mid_def)
  have k: "selected_platform mid \<in> set platform_keys"
    by (simp add: mid_def platform_keys_eq)
  have two: "main keyed_runtime rating_click_event mid = Inr mid"
    unfolding main_eq [OF k]
    by (simp add: handle_clear_def handle_prompt_def rating_click_event_def idle_event_def
        clear_event_def mid_def)
  have r: "st_radio rating_options (radio_value rating_click_event) = Some 3"
    by (simp add: st_radio_def rating_options_def rating_click_event_def)
  have c: "chat_input_value rating_click_event = None"
    by (simp add: rating_click_event_def idle_event_def clear_event_def)
  have run: "run_session [(keyed_runtime, unrated_event), (keyed_runtime, rating_click_event)]
               initial_session = Inr mid"
    by (simp add: one two)
  show ?thesis
    using r c run by (simp add: mid_def)
qed

text \<open>
  Claim C6. Whatever the state, the two assignments behind the clear button leave the
  messages and the ratings empty; the button acts whenever there is a message; and in a
  session started from the initial state, a run in which the button is clicked always
  ends with both sequences empty.
\<close>

theorem clear_conversation_empties_both:
  "messages (clear_conversation st) = [] \<and> ratings (clear_conversation st) = [] \<and>
   (button_clicked ev \<and> messages st \<noteq> [] \<longrightarrow> handle_clear ev st = clear_conversation st) \<and>
   (\<forall>steps mid rt st'. run_session steps initial_session = Inr mid \<and> button_clicked ev \<and>
        main rt ev mid = Inr st' \<longrightarrow> messages st' = [] \<and> ratings st' = [])"
proof (intro conjI allI impI)
  show "messages (clear_conversation st) = []" "ratings (clear_conversation st) = []"
    by (simp_all add: clear_conversation_def)
next
  assume "button_clicked ev \<and> messages st \<noteq> []"
  then show "handle_clear ev st = clear_conversation st"
    by (simp add: handle_clear_def)
next
  fix steps :: "('a runtime \<times> ui_event) list" and mid and rt :: "'b runtime" and st'
  assume h: "run_session steps initial_session = Inr mid \<and> button_clicked ev \<and>
        main rt ev mid = Inr st'"
  define before where
    "before = handle_prompt rt ev (mid\<lparr>selected_platform := selectbox_value ev\<rparr>)"
  have "ratings_need_messages mid"
    using h run_session_keeps_invariant initial_invariant by blast
  then have "ratings_need_messages (mid\<lparr>selected_platform := selectbox_value ev\<rparr>)"
    by (simp add: ratings_need_messages_def)
  then have i: "ratings_need_messages before"
    unfolding before_def by (rule handle_prompt_keeps_invariant)
  have s: "st' = handle_clear ev before"
    using h main_InrD [of rt ev mid st'] by (simp add: before_def)
  have "messages (handle_clear ev before) = [] \<and> ratings (handle_clear ev before) = []"
    using h i by (simp add: handle_clear_def clear_conversation_def ratings_need_messages_def)
  with s show "messages st' = []" "ratings st' = []" by simp_all
qed

theorem clear_conversation_empties_both_witness:
  "run_session [(keyed_runtime, sample_event), (keyed_runtime, sample_event)] initial_session \<noteq>
     Inr initial_session \<and>
   button_clicked clear_event \<and>
   (\<exists>mid. run_session [(keyed_runtime, sample_event), (keyed_runtime, sample_event)] initial_session
            = Inr mid \<and>
          length (messages mid) = 4 \<and> ratings mid = [3, 3] \<and>
          (\<exists>st'. main keyed_runtime clear_event mid = Inr st' \<and>
                 messages st' = [] \<and> ratings st' = []))"
proof -
  define mid where "mid =
     \<lparr>messages =
            [\<lparr>role = ''user'', content = ''Announce our new product launch'',
              platform = ''Twitter/X'', time = ''10:00:00''\<rparr>,
             \<lparr>role = ''assistant'', content = ''Launch day!'',
              platform = ''Twitter/X'', time = ''10:00:01''\<rparr>,
             \<lparr>role = ''user'', content = ''Announce our new product launch'',
              platform = ''Twitter/X'', time = ''10:00:00''\<rparr>,
             \<lparr>role = ''assistant'', content = ''Launch day!'',
              platform = ''Twitter/X'', time = ''10:00:01''\<rparr>],
          selected_platform = ''Twitter/X'', ratings = [3, 3], rate_response = Some None\<rparr>"
  have k: "selected_platform mid \<in> set platform_keys"
    by (simp add: mid_def platform_keys_eq)
  have one: "main keyed_runtime sample_event initial_session =
     Inr \<lparr>messages =
            [\<lparr>role = ''user'', content = ''Announce our new product launch'',
              platform = ''Twitter/X'', time = ''10:00:00''\<rparr>,
             \<lparr>role = ''assistant'', content = ''Launch day!'',
              platform = ''Twitter/X'', time = ''10:00:01''\<rparr>],
          selected_platform = ''Twitter/X'', ratings = [3], rate_response = Some None\<rparr>"
    by (rule sample_main)
  have k1: "selected_platform \<lparr>messages =
            [\<lparr>role = ''user'', content = ''Announce our new product launch'',
              platform = ''Twitter/X'', time = ''10:00:00''\<rparr>,
             \<lparr>role = ''assistant'', content = ''Launch day!'',
              platform = ''Twitter/X'', time = ''10:00:01''\<rparr>],
          selected_platform = ''Twitter/X'', ratings = [3], rate_response = Some None\<rparr>
          \<in> set platform_keys"
    by (simp add: platform_keys_eq)
  have two: "main keyed_runtime sample_event \<lparr>messages =
            [\<lparr>role = ''user'', content = ''Announce our new product launch'',
              platform = ''Twitter/X'', time = ''10:00:00''\<rparr>,
             \<lparr>role = ''assistant'', content = ''Launch day!'',
              platform = ''Twitter/X'', time = ''10:00:01''\<rparr>],
          selected_platform = ''Twitter/X'', ratings = [3], rate_response = Some None\<rparr> = Inr mid"
    unfolding main_eq [OF k1]
    by (simp add: handle_clear_def handle_prompt_def handle_rating_def st_radio_def
        rating_options_def Let_def sample_generate sample_event_def mid_def)
  have run: "run_session [(keyed_runtime, sample_event), (keyed_runtime, sample_event)]
               initial_session = Inr mid"
    by (simp add: one two)
  have b: "button_clicked clear_event" by (simp add: clear_event_def)
  obtain st' where m: "main keyed_runtime clear_event mid = Inr st'"
    using main_eq [OF k] by blast
  have "messages st' = [] \<and> ratings st' = []"
    using clear_conversation_empties_both [of mid clear_event] run b m by blast
  with run b m show ?thesis
    by (simp add: mid_def initial_session_def)
qed

text \<open>
  Claim C8. A submitted, non-empty prompt appends exactly two messages, in this order: the
  user's message with the prompt as typed, then the assistant's message with the string
  that \<open>generate_ai_response\<close> returned, both with the selected platform (in \<open>main\<close>, the
  value of the select box of that run, when the clear button is not clicked in the same
  run). Without a prompt nothing is appended. Hence after every run of a session the
  messages alternate user, assistant, and their number is even.
\<close>

theorem submission_appends_user_then_assistant:
  "(\<forall>prompt. chat_input_value ev = Some prompt \<and> prompt \<noteq> [] \<longrightarrow>
      messages (handle_prompt rt ev st) =
        messages st @
          [\<lparr>role = ''user'', content = prompt, platform = selected_platform st,
            time = user_time ev\<rparr>,
           \<lparr>role = ''assistant'',
            content = generate_ai_response rt prompt (selected_platform st),
            platform = selected_platform st, time = ai_time ev\<rparr>]) \<and>
   (chat_input_value ev = None \<or> chat_input_value ev = Some [] \<longrightarrow>
      handle_prompt rt ev st = st) \<and>
   (\<forall>prompt st'. main rt ev st = Inr st' \<and> chat_input_value ev = Some prompt \<and> prompt \<noteq> [] \<and>
      \<not> button_clicked ev \<longrightarrow>
      messages st' =
        messages st @
          [\<lparr>role = ''user'', content = prompt, platform = selectbox_value ev,
            time = user_time ev\<rparr>,
           \<lparr>role = ''assistant'',
            content = generate_ai_response rt prompt (selectbox_value ev),
            platform = selectbox_value ev, time = ai_time ev\<rparr>]) \<and>
   (\<forall>steps st'. run_session steps initial_session = Inr st' \<longrightarrow>
      alternates (messages st') \<and> even (length (messages st')))"
proof (intro conjI allI impI)
  fix prompt
  assume "chat_input_value ev = Some prompt \<and> prompt \<noteq> []"
  then show "messages (handle_prompt rt ev st) =
        messages st @
          [\<lparr>role = ''user'', content = prompt, platform = selected_platform st,
            time = user_time ev\<rparr>,
           \<lparr>role = ''assistant'',
            content = generate_ai_response rt prompt (selected_platform st),
            platform = selected_platform st, time = ai_time ev\<rparr>]"
    by (simp add: handle_prompt_messages)
next
  assume "chat_input_value ev = None \<or> chat_input_value ev = Some []"
  then show "handle_prompt rt ev st = st" by (rule handle_prompt_idle)
next
  fix prompt st'
  assume h: "main rt ev st = Inr st' \<and> chat_input_value ev = Some prompt \<and> prompt \<noteq> [] \<and>
      \<not> button_clicked ev"
  then have "st' = handle_prompt rt ev (st\<lparr>selected_platform := selectbox_value ev\<rparr>)"
    using main_InrD [of rt ev st st'] by (simp add: handle_clear_def)
  then show "messages st' =
        messages st @
          [\<lparr>role = ''user'', content = prompt, platform = selectbox_value ev,
            time = user_time ev\<rparr>,
           \<lparr>role = ''assistant'',
            content = generate_ai_response rt prompt (selectbox_value ev),
            platform = selectbox_value ev, time = ai_time ev\<rparr>]"
    using h by (simp add: handle_prompt_messages)
next
  fix steps :: "('b runtime \<times> ui_event) list" and st'
  assume "run_session steps initial_session = Inr st'"
  then have a: "alternates (messages st')"
    by (rule run_session_alternates) (simp add: initial_session_def)
  then show "alternates (messages st')" "even (length (messages st'))"
    by (simp_all add: alternates_even)
qed

theorem submission_appends_user_then_assistant_witness:
  "chat_input_value sample_event = Some ''Announce our new product launch'' \<and>
   \<not> button_clicked sample_event \<and>
   (\<exists>st'. main keyed_runtime sample_event initial_session = Inr st' \<and>
      run_session [(keyed_runtime, sample_event)] initial_session = Inr st' \<and>
      messages st' =
          [\<lparr>role = ''user'', content = ''Announce our new product launch'',
            platform = ''Twitter/X'', time = ''10:00:00''\<rparr>,
           \<lparr>role = ''assistant'', content = ''Launch day!'',
            platform = ''Twitter/X'', time = ''10:00:01''\<rparr>] \<and>
      alternates (messages st') \<and> even (length (messages st')))"
proof -
  obtain st' where m: "main keyed_runtime sample_event initial_session = Inr st'"
    using sample_main by blast
  have r: "run_session [(keyed_runtime, sample_event)] initial_session = Inr st'"
    by (simp add: m)
  have c: "chat_input_value sample_event = Some ''Announce our new product launch'' \<and>
      ''Announce our new product launch'' \<noteq> [] \<and> \<not> button_clicked sample_event"
    by (simp add: sample_event_def)
  have "messages st' =
        messages initial_session @
          [\<lparr>role = ''user'', content = ''Announce our new product launch'',
            platform = selectbox_value sample_event, time = user_time sample_event\<rparr>,
           \<lparr>role = ''assistant'',
            content = generate_ai_response keyed_runtime ''Announce our new product launch''
                        (selectbox_value sample_event),
            platform = selectbox_value sample_event, time = ai_time sample_event\<rparr>] \<and>
        alternates (messages st') \<and> even (length (messages st'))"
    using submission_appends_user_then_assistant
            [of sample_event keyed_runtime initial_session, where 'b = unit] m r c
    by blast
  then show ?thesis
    using m r c sample_generate by (simp add: sample_event_def initial_session_def)
qed

text \<open>
  Claim C10. If the ratings are empty whenever the messages are, they still are after the
  prompt block, after the clear block and after a whole run of \<open>main\<close>; so this holds
  after every run of a session started from the initial state. A run changes the ratings
  only when it has appended two messages.
\<close>

theorem ratings_empty_while_no_messages:
  "(ratings_need_messages st \<longrightarrow>
      ratings_need_messages (handle_prompt rt ev st) \<and>
      ratings_need_messages (handle_clear ev st)) \<and>
   (\<forall>st'. ratings_need_messages st \<and> main rt ev st = Inr st' \<longrightarrow> ratings_need_messages st') \<and>
   (\<forall>steps st'. run_session steps initial_session = Inr st' \<longrightarrow>
      (messages st' = [] \<longrightarrow> ratings st' = [])) \<and>
   (ratings (handle_prompt rt ev st) \<noteq> ratings st \<longrightarrow>
      length (messages (handle_prompt rt ev st)) = length (messages st) + 2)"
proof (intro conjI allI impI)
  assume "ratings_need_messages st"
  then show "ratings_need_messages (handle_prompt rt ev st)"
    and "ratings_need_messages (handle_clear ev st)"
    by (simp_all add: handle_prompt_keeps_invariant handle_clear_keeps_invariant)
next
  fix st'
  assume "ratings_need_messages st \<and> main rt ev st = Inr st'"
  then show "ratings_need_messages st'"
    using main_keeps_invariant by blast
next
  fix steps :: "('b runtime \<times> ui_event) list" and st'
  assume "run_session steps initial_session = Inr st'" and "messages st' = []"
  then show "ratings st' = []"
    using run_session_keeps_invariant [OF _ initial_invariant]
    by (auto simp add: ratings_need_messages_def)
next
  assume "ratings (handle_prompt rt ev st) \<noteq> ratings st"
  then show "length (messages (handle_prompt rt ev st)) = length (messages st) + 2"
    using handle_prompt_ratings [of rt ev st] by auto
qed

theorem ratings_empty_while_no_messages_witness:
  "ratings_need_messages initial_session \<and>
   ratings (handle_prompt keyed_runtime sample_event initial_session) \<noteq> ratings initial_session \<and>
   length (messages (handle_prompt keyed_runtime sample_event initial_session)) = 2 \<and>
   (\<exists>mid st'. main keyed_runtime sample_event initial_session = Inr mid \<and>
      ratings_need_messages mid \<and> ratings mid = [3] \<and>
      run_session [(keyed_runtime, sample_event), (keyed_runtime, clear_event)] initial_session
        = Inr st' \<and>
      messages st' = [] \<and> ratings st' = [])"
proof -
  define mid where "mid =
     \<lparr>messages =
            [\<lparr>role = ''user'', content = ''Announce our new product launch'',
              platform = ''Twitter/X'', time = ''10:00:00''\<rparr>,
             \<lparr>role = ''assistant'', content = ''Launch day!'',
              platform = ''Twitter/X'', time = ''10:00:01''\<rparr>],
          selected_platform = ''Twitter/X'', ratings = [3], rate_response = Some None\<rparr>"
  have m: "main keyed_runtime sample_event initial_session = Inr mid"
    unfolding mid_def by (rule sample_main)
  have k: "selected_platform mid \<in> set platform_keys"
    by (simp add: mid_def platform_keys_eq)
  define final where "final = mid\<lparr>messages := [], ratings := []\<rparr>"
  have c: "main keyed_runtime clear_event mid = Inr final"
    unfolding main_eq [OF k]
    by (simp add: handle_clear_def handle_prompt_def clear_conversation_def clear_event_def
        mid_def final_def)
  have r: "run_session [(keyed_runtime, sample_event), (keyed_runtime, clear_event)]
             initial_session = Inr final"
    by (simp add: m c)
  have p: "ratings (handle_prompt keyed_runtime sample_event initial_session) = [3]"
    by (simp add: handle_prompt_def handle_rating_def st_radio_def rating_options_def
        Let_def sample_event_def initial_session_def)
  note t = ratings_empty_while_no_messages
             [of initial_session keyed_runtime sample_event, where 'b = unit]
  have i: "ratings_need_messages mid"
    using t initial_invariant m by blast
  have l: "length (messages (handle_prompt keyed_runtime sample_event initial_session)) = 2"
    using t p by (simp add: initial_session_def)
  have f: "messages final = [] \<and> ratings final = []"
    using t r by (simp add: final_def)
  show ?thesis
    using initial_invariant p l m i r f by (auto simp add: mid_def initial_session_def)
qed

text \<open>
  Claim C7. A run without a submission never touches the API key or the client: on a
  state whose platform is one of the table it succeeds, with a result that does not
  depend on the runtime, and so does the first run of a session. No run raises. When the
  key is not set and the client refuses to be built without one, or when the client is
  built and the call fails, \<open>generate_ai_response\<close> returns
  \<open>Error generating response: \<close> followed by the text of the exception.
\<close>

theorem api_key_failure_surfaces_in_generation:
  "(\<forall>ev st. chat_input_value ev = None \<and> selected_platform st \<in> set platform_keys \<longrightarrow>
      main rt ev st = Inr (handle_clear ev (st\<lparr>selected_platform := selectbox_value ev\<rparr>))) \<and>
   (\<forall>ev. chat_input_value ev = None \<longrightarrow>
      main rt ev initial_session = Inr (initial_session\<lparr>selected_platform := selectbox_value ev\<rparr>)) \<and>
   (\<forall>ev st. selected_platform st \<in> set platform_keys \<longrightarrow> (\<exists>st'. main rt ev st = Inr st')) \<and>
   (\<forall>user_prompt pname e. pname \<in> set platform_keys \<and> getenv rt ''GROQ_API_KEY'' = None \<and>
      (\<forall>args. api_key args = None \<longrightarrow> ChatGroq rt args = Inl e) \<longrightarrow>
      generate_ai_response rt user_prompt pname = error_prefix @ exception_str rt e) \<and>
   (\<forall>user_prompt pname rules model e. platform_lookup pname = Inr rules \<and>
      ChatGroq rt (model_args rt rules) = Inr model \<and>
      chain_invoke rt prompt_messages model (invoke_args user_prompt rules) = Inl e \<longrightarrow>
      generate_ai_response rt user_prompt pname = error_prefix @ exception_str rt e)"
proof (intro conjI allI impI)
  fix ev :: ui_event and st :: session_state
  assume "chat_input_value ev = None \<and> selected_platform st \<in> set platform_keys"
  then show "main rt ev st = Inr (handle_clear ev (st\<lparr>selected_platform := selectbox_value ev\<rparr>))"
    by (simp add: main_eq handle_prompt_idle)
next
  fix ev :: ui_event
  assume "chat_input_value ev = None"
  moreover have "selected_platform initial_session \<in> set platform_keys"
    by (simp add: initial_session_def platform_keys_eq)
  ultimately show "main rt ev initial_session =
      Inr (initial_session\<lparr>selected_platform := selectbox_value ev\<rparr>)"
    by (simp add: main_eq handle_prompt_idle handle_clear_def initial_session_def)
next
  fix ev :: ui_event and st :: session_state
  assume "selected_platform st \<in> set platform_keys"
  then show "\<exists>st'. main rt ev st = Inr st'"
    by (simp add: main_eq)
next
  fix user_prompt pname e
  assume h: "pname \<in> set platform_keys \<and> getenv rt ''GROQ_API_KEY'' = None \<and>
      (\<forall>args. api_key args = None \<longrightarrow> ChatGroq rt args = Inl e)"
  then obtain rules where l: "platform_lookup pname = Inr rules"
    using platform_lookup_known by blast
  have "api_key (model_args rt rules) = None"
    using h by (simp add: model_args_def)
  then have "ChatGroq rt (model_args rt rules) = Inl e"
    using h by blast
  with l show "generate_ai_response rt user_prompt pname = error_prefix @ exception_str rt e"
    by (rule generate_client_fails)
next
  fix user_prompt pname rules model e
  assume "platform_lookup pname = Inr rules \<and>
      ChatGroq rt (model_args rt rules) = Inr model \<and>
      chain_invoke rt prompt_messages model (invoke_args user_prompt rules) = Inl e"
  then show "generate_ai_response rt user_prompt pname = error_prefix @ exception_str rt e"
    by (simp add: generate_invoke_fails)
qed

theorem api_key_failure_surfaces_in_generation_witness:
  "getenv sample_runtime ''GROQ_API_KEY'' = None \<and>
   main sample_runtime idle_event initial_session =
     Inr (initial_session\<lparr>selected_platform := ''Twitter/X''\<rparr>) \<and>
   generate_ai_response sample_runtime ''Announce our new product launch'' ''Twitter/X'' =
     ''Error generating response: api_key must be set'' \<and>
   generate_ai_response keyed_runtime ''quota'' ''General'' =
     ''Error generating response: rate limit'' \<and>
   (\<exists>st'. main sample_runtime sample_event initial_session = Inr st')"
proof -
  note t = api_key_failure_surfaces_in_generation [of sample_runtime]
  note t' = api_key_failure_surfaces_in_generation [of keyed_runtime]
  have a: "getenv sample_runtime ''GROQ_API_KEY'' = None"
    by (simp add: sample_runtime_def)
  have b: "\<forall>args. api_key args = None \<longrightarrow>
             ChatGroq sample_runtime args = Inl (Exception ''api_key must be set'')"
    by (simp add: sample_runtime_def)
  have k: "''Twitter/X'' \<in> set platform_keys" "selected_platform initial_session \<in> set platform_keys"
    by (simp_all add: platform_keys_eq initial_session_def)
  have i: "chat_input_value idle_event = None" "selectbox_value idle_event = ''Twitter/X''"
    by (simp_all add: idle_event_def clear_event_def)
  have c: "ChatGroq keyed_runtime (model_args keyed_runtime \<lparr>max_length = 500, tone = ''neutral''\<rparr>)
             = Inr ()"
    by (simp add: keyed_runtime_def sample_runtime_def model_args_def)
  have d: "chain_invoke keyed_runtime prompt_messages ()
             (invoke_args ''quota'' \<lparr>max_length = 500, tone = ''neutral''\<rparr>) = Inl (Exception ''rate limit'')"
    by (simp add: keyed_runtime_def sample_runtime_def invoke_args_def)
  have 1: "main sample_runtime idle_event initial_session =
     Inr (initial_session\<lparr>selected_platform := ''Twitter/X''\<rparr>)"
    using t i by simp
  have 2: "generate_ai_response sample_runtime ''Announce our new product launch'' ''Twitter/X'' =
     error_prefix @ exception_str sample_runtime (Exception ''api_key must be set'')"
    using t a b k by blast
  have 3: "generate_ai_response keyed_runtime ''quota'' ''General'' =
     error_prefix @ exception_str keyed_runtime (Exception ''rate limit'')"
    using t' sample_lookup_General c d by blast
  have 4: "\<exists>st'. main sample_runtime sample_event initial_session = Inr st'"
    using t k by blast
  show ?thesis
    using a 1 2 3 4 by (simp add: error_prefix_def)
qed

end
